theory Spec2Isabelle
  imports Main
begin

section \<open>JavaScript values and exceptions\<close>

text \<open>
  The values that flow through \<^verbatim>\<open>src/utils/api.ts\<close> are request bodies (\<^verbatim>\<open>unknown\<close>),
  parsed response bodies (\<^verbatim>\<open>any\<close>) and response texts. They are modelled by one
  datatype of JSON-shaped values. The code never computes with a number: it only tests
  it for truthiness and converts it to a string, so a number is held as the text that
  \<^verbatim>\<open>Number.prototype.toString\<close> gives for it (\<^verbatim>\<open>42\<close>, \<^verbatim>\<open>-1.5\<close>, \<^verbatim>\<open>1e+21\<close>); both
  zeros have the text \<^verbatim>\<open>0\<close>. An object is the list of its own properties, a key
  occurring once. \<^verbatim>\<open>undefined\<close> is the \<open>None\<close> of an option around a value.
\<close>

datatype json =
    JNull
  | JBool bool
  | JNum string
  | JStr string
  | JArr "json list"
  | JObj "(string \<times> json) list"

text \<open>
  A thrown value: an instance of \<^verbatim>\<open>Error\<close> with its message, or anything else.
\<close>

datatype thrown = ErrorObj string | NonError

text \<open>\<^verbatim>\<open>ToBoolean\<close>, as \<^verbatim>\<open>||\<close>, \<^verbatim>\<open>&&\<close> and \<^verbatim>\<open>if\<close> apply it.\<close>

fun ToBoolean :: "json \<Rightarrow> bool" where
  "ToBoolean JNull = False"
| "ToBoolean (JBool b) = b"
| "ToBoolean (JNum n) = (n \<noteq> ''0'' \<and> n \<noteq> ''NaN'')"
| "ToBoolean (JStr s) = (s \<noteq> [])"
| "ToBoolean (JArr xs) = True"
| "ToBoolean (JObj kvs) = True"

definition truthy :: "json option \<Rightarrow> bool" where
  "truthy v = (case v of None \<Rightarrow> False | Some x \<Rightarrow> ToBoolean x)"

text \<open>\<^verbatim>\<open>a || b\<close> where \<^verbatim>\<open>b\<close> is a string literal.\<close>

definition or_else :: "json option \<Rightarrow> string \<Rightarrow> json" where
  "or_else v fallback = (case v of None \<Rightarrow> JStr fallback
     | Some x \<Rightarrow> if ToBoolean x then x else JStr fallback)"

text \<open>
  \<^verbatim>\<open>ToString\<close>, as the \<^verbatim>\<open>Error\<close> constructor and a template literal apply it. It can
  throw. An object is converted by calling its \<^verbatim>\<open>toString\<close>: a parsed object with a
  property \<^verbatim>\<open>toString\<close> of its own holds no function there, \<^verbatim>\<open>valueOf\<close> gives no
  primitive, and the conversion throws a \<^verbatim>\<open>TypeError\<close> with the engine's message; any
  other parsed object gives \<^verbatim>\<open>[object Object]\<close>. An array joins the texts of its
  elements with commas, from left to right, a \<^verbatim>\<open>null\<close> element giving the empty text,
  and throws what the conversion of an element throws.
\<close>

fun join :: "string list \<Rightarrow> string" where
  "join [] = []"
| "join [s] = s"
| "join (s # t # ts) = s @ '','' @ join (t # ts)"

fun ToString :: "string \<Rightarrow> json \<Rightarrow> thrown + string"
  and element_texts :: "string \<Rightarrow> json list \<Rightarrow> thrown + string list" where
  "ToString msg JNull = Inr ''null''"
| "ToString msg (JBool b) = Inr (if b then ''true'' else ''false'')"
| "ToString msg (JNum n) = Inr n"
| "ToString msg (JStr s) = Inr s"
| "ToString msg (JArr xs) = (case element_texts msg xs of
       Inl e \<Rightarrow> Inl e
     | Inr ts \<Rightarrow> Inr (join ts))"
| "ToString msg (JObj kvs) = (case map_of kvs ''toString'' of
       None \<Rightarrow> Inr ''[object Object]''
     | Some v \<Rightarrow> Inl (ErrorObj msg))"
| "element_texts msg [] = Inr []"
| "element_texts msg (x # xs) =
     (case (if x = JNull then Inr [] else ToString msg x) of
        Inl e \<Rightarrow> Inl e
      | Inr t \<Rightarrow> (case element_texts msg xs of
            Inl e \<Rightarrow> Inl e
          | Inr ts \<Rightarrow> Inr (t # ts)))"

text \<open>
  Reading the property \<^verbatim>\<open>message\<close> of a parsed response body. Reading a property of
  \<^verbatim>\<open>null\<close> throws a \<^verbatim>\<open>TypeError\<close>, whose message is the engine's; a primitive or an
  array has no such property.
\<close>

definition get_message :: "string \<Rightarrow> json \<Rightarrow> thrown + json option" where
  "get_message type_error_message v = (case v of
       JNull \<Rightarrow> Inl (ErrorObj type_error_message)
     | JObj kvs \<Rightarrow> Inr (map_of kvs ''message'')
     | _ \<Rightarrow> Inr None)"

text \<open>\<^verbatim>\<open>String.prototype.includes\<close>: the pattern occurs as a contiguous part.\<close>

fun starts_with :: "string \<Rightarrow> string \<Rightarrow> bool" where
  "starts_with s [] = True"
| "starts_with [] (c # cs) = False"
| "starts_with (d # ds) (c # cs) = (d = c \<and> starts_with ds cs)"

fun str_includes :: "string \<Rightarrow> string \<Rightarrow> bool" where
  "str_includes [] pat = (pat = [])"
| "str_includes (c # cs) pat = (starts_with (c # cs) pat \<or> str_includes cs pat)"

text \<open>The decimal text of a status code, as a template literal prints a number.\<close>

fun string_of_nat :: "nat \<Rightarrow> string" where
  "string_of_nat n =
     (if n < 10 then [''0123456789'' ! n]
      else string_of_nat (n div 10) @ [''0123456789'' ! (n mod 10)])"

declare string_of_nat.simps [simp del]

section \<open>The fetch wrapper (\<^verbatim>\<open>src/utils/api.ts\<close>)\<close>

datatype HttpMethod = GET | POST | PUT | DELETE | PATCH

text \<open>
  \<^verbatim>\<open>HeadersInit\<close> has three forms: a plain object from names to values, an array of
  name and value pairs, and a \<^verbatim>\<open>Headers\<close> instance with its list of headers. A plain
  object is the list of its properties in the order they were created, a name
  occurring once.
\<close>

datatype HeadersInit =
    HeadersRecord "(string \<times> string) list"
  | HeadersPairs "(string \<times> string) list"
  | HeadersInstance "(string \<times> string) list"

text \<open>
  The headers object that \<^verbatim>\<open>apiRequest\<close> builds is a plain object whose property values
  are strings or, spread from an array of pairs, the pairs themselves.
\<close>

datatype header_prop = PropString string | PropPair string string

text \<open>
  \<^verbatim>\<open>RequestOptions\<close>: every field is optional. Its \<^verbatim>\<open>method\<close> is \<open>httpMethod\<close> here.
\<close>

record RequestOptions =
  httpMethod :: "HttpMethod option"
  headers :: "HeadersInit option"
  body :: "json option"
  cache :: "string option"
  credentials :: "string option"

definition no_options :: RequestOptions where
  "no_options = \<lparr>httpMethod = None, headers = None, body = None, cache = None,
     credentials = None\<rparr>"

text \<open>\<^verbatim>\<open>RequestInit\<close>, the second argument of \<^verbatim>\<open>fetch\<close>, as \<^verbatim>\<open>apiRequest\<close> fills it.\<close>

record RequestInit =
  req_method :: HttpMethod
  req_headers :: "(string \<times> header_prop) list"
  req_body :: "string option"
  req_cache :: "string option"
  req_credentials :: "string option"

text \<open>
  What \<^verbatim>\<open>apiRequest\<close> reads of a \<^verbatim>\<open>Response\<close>: \<^verbatim>\<open>status\<close>, \<^verbatim>\<open>ok\<close>, the
  \<^verbatim>\<open>content-type\<close> header (\<open>None\<close> for \<^verbatim>\<open>null\<close>), and what \<^verbatim>\<open>json()\<close> and \<^verbatim>\<open>text()\<close>
  settle to.
\<close>

record Response =
  status :: nat
  ok :: bool
  content_type :: "string option"
  json_body :: "thrown + json"
  text_body :: "thrown + string"

record ApiResponse =
  data :: "json option"
  error :: "json option"
  statusCode :: nat

text \<open>
  The platform the module runs on: the environment variable behind \<^verbatim>\<open>API_BASE_URL\<close>,
  \<^verbatim>\<open>JSON.stringify\<close> (it throws on a cyclic value), \<^verbatim>\<open>fetch\<close> with the outcome its
  promise settles to, the engine's messages for reading a property of \<^verbatim>\<open>null\<close> and
  for an object that converts to no primitive, and the router's \<^verbatim>\<open>push\<close>.
\<close>

record platform =
  NEXT_PUBLIC_API_URL :: "string option"
  JSON_stringify :: "json \<Rightarrow> thrown + string"
  fetch :: "string \<Rightarrow> RequestInit \<Rightarrow> thrown + Response"
  null_read_message :: string
  to_primitive_message :: string
  router_push :: "string \<Rightarrow> thrown + unit"

text \<open>
  The observable actions of the code, in the order they happen: a call of \<^verbatim>\<open>fetch\<close>,
  a call of \<^verbatim>\<open>console.error\<close>, a state update of the login form, a navigation.
\<close>

datatype logged = LogValue "json option" | LogText string | LogThrown thrown

datatype event =
    Fetch string RequestInit
  | ConsoleError "logged list"
  | SetIsLoading bool
  | SetError "string option"
  | RouterPush string

definition API_BASE_URL :: "platform \<Rightarrow> string" where
  "API_BASE_URL p = (case NEXT_PUBLIC_API_URL p of
       None \<Rightarrow> ''http://localhost:8000/api''
     | Some u \<Rightarrow> if u = [] then ''http://localhost:8000/api'' else u)"

text \<open>Lines 43 to 58: the \<^verbatim>\<open>RequestInit\<close> built from the options.\<close>

text \<open>
  What a spread \<^verbatim>\<open>...headers\<close> copies, the own enumerable properties: of a plain
  object its properties; of an array of pairs the pairs under their indices; of a
  \<^verbatim>\<open>Headers\<close> instance nothing. Each is assigned to the object under construction: a
  name that is there keeps its place and takes the new value, a new name goes to the
  end. The place that enumeration gives to names that are array indices is not
  modelled; a name with a letter is never one.
\<close>

fun own_properties :: "HeadersInit \<Rightarrow> (string \<times> header_prop) list" where
  "own_properties (HeadersRecord kvs) = map (\<lambda>(k, v). (k, PropString v)) kvs"
| "own_properties (HeadersPairs ps) =
     map (\<lambda>(i, (name, v)). (string_of_nat i, PropPair name v)) (enumerate 0 ps)"
| "own_properties (HeadersInstance hs) = []"

fun assign :: "string \<Rightarrow> 'a \<Rightarrow> (string \<times> 'a) list \<Rightarrow> (string \<times> 'a) list" where
  "assign k v [] = [(k, v)]"
| "assign k v ((k', v') # obj) = (if k' = k then (k, v) # obj else (k', v') # assign k v obj)"

definition object_spread ::
  "(string \<times> 'a) list \<Rightarrow> (string \<times> 'a) list \<Rightarrow> (string \<times> 'a) list" where
  "object_spread obj props = foldl (\<lambda>acc (k, v). assign k v acc) obj props"

definition requestHeaders :: "RequestOptions \<Rightarrow> (string \<times> header_prop) list" where
  "requestHeaders options =
     object_spread [(''Content-Type'', PropString ''application/json'')]
       (case headers options of None \<Rightarrow> [] | Some h \<Rightarrow> own_properties h)"

definition requestOptions :: "platform \<Rightarrow> RequestOptions \<Rightarrow> thrown + RequestInit" where
  "requestOptions p options =
     (let init = \<lparr>req_method = (case httpMethod options of None \<Rightarrow> GET | Some m \<Rightarrow> m),
                   req_headers = requestHeaders options,
                   req_body = None,
                   req_cache = cache options,
                   req_credentials = credentials options\<rparr>
      in case body options of
           None \<Rightarrow> Inr init
         | Some b \<Rightarrow> (case JSON_stringify p b of
               Inl e \<Rightarrow> Inl e
             | Inr s \<Rightarrow> Inr (init\<lparr>req_body := Some s\<rparr>)))"

text \<open>Lines 61 to 87: the result computed from a response.\<close>

definition is_json :: "string option \<Rightarrow> bool" where
  "is_json contentType = (case contentType of
       None \<Rightarrow> False
     | Some ct \<Rightarrow> ct \<noteq> [] \<and> str_includes ct ''application/json'')"

definition from_response :: "platform \<Rightarrow> Response \<Rightarrow> thrown + ApiResponse" where
  "from_response p response =
     (if is_json (content_type response) then
        (case json_body response of
           Inl e \<Rightarrow> Inl e
         | Inr responseData \<Rightarrow>
             if ok response then
               Inr \<lparr>data = Some responseData, error = None, statusCode = status response\<rparr>
             else
               (case get_message (null_read_message p) responseData of
                  Inl e \<Rightarrow> Inl e
                | Inr m \<Rightarrow>
                    Inr \<lparr>data = None, error = Some (or_else m ''An error occurred''),
                         statusCode = status response\<rparr>))
      else if ok response then
        (case text_body response of
           Inl e \<Rightarrow> Inl e
         | Inr textData \<Rightarrow>
             Inr \<lparr>data = Some (JStr textData), error = None, statusCode = status response\<rparr>)
      else
        Inr \<lparr>data = None,
             error = Some (JStr (''Request failed with status '' @ string_of_nat (status response))),
             statusCode = status response\<rparr>)"

text \<open>
  The \<^verbatim>\<open>try\<close> block of \<^verbatim>\<open>apiRequest\<close>: the calls of \<^verbatim>\<open>fetch\<close> it made, and the value it
  returned or the exception that left it.
\<close>

definition apiRequest_try ::
  "platform \<Rightarrow> string \<Rightarrow> RequestOptions \<Rightarrow> event list \<times> (thrown + ApiResponse)" where
  "apiRequest_try p endpoint options =
     (case requestOptions p options of
        Inl e \<Rightarrow> ([], Inl e)
      | Inr init \<Rightarrow>
          (let url = API_BASE_URL p @ endpoint
           in case fetch p url init of
                Inl e \<Rightarrow> ([Fetch url init], Inl e)
              | Inr response \<Rightarrow> ([Fetch url init], from_response p response)))"

text \<open>The \<^verbatim>\<open>catch\<close> block, lines 88 to 93.\<close>

definition caught :: "thrown \<Rightarrow> ApiResponse" where
  "caught e = \<lparr>data = None,
                error = Some (JStr (case e of ErrorObj m \<Rightarrow> m | NonError \<Rightarrow> ''Network error'')),
                statusCode = 500\<rparr>"

text \<open>
  \<^verbatim>\<open>apiRequest\<close>: the promise it returns is fulfilled with an \<^verbatim>\<open>ApiResponse\<close> (\<open>Inr\<close>) or
  rejected (\<open>Inl\<close>).
\<close>

definition apiRequest ::
  "platform \<Rightarrow> string \<Rightarrow> RequestOptions \<Rightarrow> event list \<times> (thrown + ApiResponse)" where
  "apiRequest p endpoint options =
     (case apiRequest_try p endpoint options of
        (calls, Inl e) \<Rightarrow> (calls, Inr (caught e))
      | (calls, Inr r) \<Rightarrow> (calls, Inr r))"

text \<open>
  The convenience methods of \<^verbatim>\<open>api\<close>. An omitted \<^verbatim>\<open>options\<close> argument spreads to no
  property at all.
\<close>

definition spread :: "RequestOptions option \<Rightarrow> RequestOptions" where
  "spread options = (case options of None \<Rightarrow> no_options | Some opts \<Rightarrow> opts)"

definition api_get ::
  "platform \<Rightarrow> string \<Rightarrow> RequestOptions option \<Rightarrow> event list \<times> (thrown + ApiResponse)" where
  "api_get p endpoint options = apiRequest p endpoint ((spread options)\<lparr>httpMethod := Some GET\<rparr>)"

definition api_post ::
  "platform \<Rightarrow> string \<Rightarrow> json option \<Rightarrow> RequestOptions option
     \<Rightarrow> event list \<times> (thrown + ApiResponse)" where
  "api_post p endpoint payload options =
     apiRequest p endpoint ((spread options)\<lparr>httpMethod := Some POST, body := payload\<rparr>)"

definition api_put ::
  "platform \<Rightarrow> string \<Rightarrow> json option \<Rightarrow> RequestOptions option
     \<Rightarrow> event list \<times> (thrown + ApiResponse)" where
  "api_put p endpoint payload options =
     apiRequest p endpoint ((spread options)\<lparr>httpMethod := Some PUT, body := payload\<rparr>)"

definition api_patch ::
  "platform \<Rightarrow> string \<Rightarrow> json option \<Rightarrow> RequestOptions option
     \<Rightarrow> event list \<times> (thrown + ApiResponse)" where
  "api_patch p endpoint payload options =
     apiRequest p endpoint ((spread options)\<lparr>httpMethod := Some PATCH, body := payload\<rparr>)"

definition api_delete ::
  "platform \<Rightarrow> string \<Rightarrow> RequestOptions option \<Rightarrow> event list \<times> (thrown + ApiResponse)" where
  "api_delete p endpoint options =
     apiRequest p endpoint ((spread options)\<lparr>httpMethod := Some DELETE\<rparr>)"

subsection \<open>\<^verbatim>\<open>createApiClient\<close>\<close>

text \<open>
  A schema is taken by what \<^verbatim>\<open>schema.parse\<close> does with a value: it returns the parsed
  value or throws. The client is the object of five functions that \<^verbatim>\<open>createApiClient\<close>
  returns; an \<^verbatim>\<open>id\<close> is printed into the path by a template literal, and where that
  throws the promise of the function is rejected before any request.
\<close>

type_synonym Schema = "json \<Rightarrow> thrown + json"

record ApiClient =
  getAll :: "RequestOptions option \<Rightarrow> event list \<times> (thrown + ApiResponse)"
  getById :: "json \<Rightarrow> RequestOptions option \<Rightarrow> event list \<times> (thrown + ApiResponse)"
  create :: "json \<Rightarrow> RequestOptions option \<Rightarrow> event list \<times> (thrown + ApiResponse)"
  update :: "json \<Rightarrow> json \<Rightarrow> RequestOptions option \<Rightarrow> event list \<times> (thrown + ApiResponse)"
  remove :: "json \<Rightarrow> RequestOptions option \<Rightarrow> event list \<times> (thrown + ApiResponse)"

definition validate_logged :: "Schema \<Rightarrow> ApiResponse \<Rightarrow> event list" where
  "validate_logged schema response = (case data response of
       None \<Rightarrow> []
     | Some d \<Rightarrow>
         if ToBoolean d then
           (case schema d of
              Inl e \<Rightarrow> [ConsoleError [LogText ''API response validation failed:'', LogThrown e]]
            | Inr parsed \<Rightarrow> [])
         else [])"

definition createApiClient :: "platform \<Rightarrow> string \<Rightarrow> Schema \<Rightarrow> ApiClient" where
  "createApiClient p endpoint schema =
     \<lparr>getAll = (\<lambda>options.
          case api_get p endpoint options of
            (evs, Inl e) \<Rightarrow> (evs, Inl e)
          | (evs, Inr response) \<Rightarrow> (evs @ validate_logged schema response, Inr response)),
      getById = (\<lambda>id options.
          case ToString (to_primitive_message p) id of
            Inl e \<Rightarrow> ([], Inl e)
          | Inr t \<Rightarrow> api_get p (endpoint @ ''/'' @ t) options),
      create = (\<lambda>payload options. api_post p endpoint (Some payload) options),
      update = (\<lambda>id payload options.
          case ToString (to_primitive_message p) id of
            Inl e \<Rightarrow> ([], Inl e)
          | Inr t \<Rightarrow> api_put p (endpoint @ ''/'' @ t) (Some payload) options),
      remove = (\<lambda>id options.
          case ToString (to_primitive_message p) id of
            Inl e \<Rightarrow> ([], Inl e)
          | Inr t \<Rightarrow> api_delete p (endpoint @ ''/'' @ t) options)\<rparr>"

section \<open>The login schema (\<^verbatim>\<open>src/types/auth.schema.ts\<close>)\<close>

text \<open>
  The schema combinators of the validation library that \<^verbatim>\<open>LoginBody\<close> is built from, by
  the library's documented behaviour: a string schema reports a value that is not a
  string and otherwise runs its checks; a strict object schema reports a value that
  is not a plain object, parses the value under each key of its shape, and reports the
  keys that are not in the shape. The pattern behind \<^verbatim>\<open>email()\<close> is the library's and is
  a parameter. A string's length counts its characters.
\<close>

datatype issue_code =
    invalid_type
  | invalid_string
  | too_small
  | too_big
  | unrecognized_keys "string list"

type_synonym ZodIssue = "string list \<times> issue_code"

type_synonym ZodType = "json option \<Rightarrow> ZodIssue list + json"

definition z_email :: "(string \<Rightarrow> bool) \<Rightarrow> string \<Rightarrow> issue_code list" where
  "z_email is_email s = (if is_email s then [] else [invalid_string])"

definition z_min :: "nat \<Rightarrow> string \<Rightarrow> issue_code list" where
  "z_min n s = (if length s < n then [too_small] else [])"

definition z_max :: "nat \<Rightarrow> string \<Rightarrow> issue_code list" where
  "z_max n s = (if length s > n then [too_big] else [])"

definition z_string :: "(string \<Rightarrow> issue_code list) list \<Rightarrow> ZodType" where
  "z_string checks input = (case input of
       Some (JStr s) \<Rightarrow>
         (case concat (map (\<lambda>c. c s) checks) of
            [] \<Rightarrow> Inr (JStr s)
          | code # codes \<Rightarrow> Inl (map (Pair []) (code # codes)))
     | _ \<Rightarrow> Inl [([], invalid_type)])"

definition at_key :: "string \<Rightarrow> ZodIssue list + json \<Rightarrow> ZodIssue list" where
  "at_key k r = (case r of Inl issues \<Rightarrow> map (\<lambda>(path, code). (k # path, code)) issues
     | Inr v \<Rightarrow> [])"

definition parsed_at :: "string \<Rightarrow> ZodIssue list + json \<Rightarrow> (string \<times> json) list" where
  "parsed_at k r = (case r of Inl issues \<Rightarrow> [] | Inr v \<Rightarrow> [(k, v)])"

definition z_object_strict :: "(string \<times> ZodType) list \<Rightarrow> ZodType" where
  "z_object_strict shape input = (case input of
       Some (JObj kvs) \<Rightarrow>
         (let results = map (\<lambda>(k, schema). (k, schema (map_of kvs k))) shape;
              extra = filter (\<lambda>k. k \<notin> set (map fst shape)) (map fst kvs);
              issues = concat (map (\<lambda>(k, r). at_key k r) results)
                @ (if extra = [] then [] else [([], unrecognized_keys extra)])
          in if issues = [] then Inr (JObj (concat (map (\<lambda>(k, r). parsed_at k r) results)))
             else Inl issues)
     | _ \<Rightarrow> Inl [([], invalid_type)])"

definition LoginBody :: "(string \<Rightarrow> bool) \<Rightarrow> ZodType" where
  "LoginBody is_email =
     z_object_strict
       [(''email'', z_string [z_email is_email]),
        (''password'', z_string [z_min 6, z_max 100])]"

text \<open>
  The constraints of a login submission in the specification's words: the email has
  the shape of an email, the password has between 6 and 100 characters, and there is
  no field but these two.
\<close>

definition login_constraints :: "(string \<Rightarrow> bool) \<Rightarrow> (string \<times> json) list \<Rightarrow> bool" where
  "login_constraints is_email kvs =
     ((case map_of kvs ''email'' of Some (JStr e) \<Rightarrow> is_email e | _ \<Rightarrow> False)
      \<and> (case map_of kvs ''password'' of
            Some (JStr pw) \<Rightarrow> 6 \<le> length pw \<and> length pw \<le> 100
          | _ \<Rightarrow> False)
      \<and> set (map fst kvs) \<subseteq> {''email'', ''password''})"

section \<open>The login form (\<^verbatim>\<open>LoginForm\<close>)\<close>

text \<open>
  The component's state, and the state updates among the events. \<^verbatim>\<open>error\<close> of the
  component is \<open>form_error\<close> here, \<open>None\<close> for \<^verbatim>\<open>null\<close>.
\<close>

record LoginForm =
  isLoading :: bool
  form_error :: "string option"
  showPassword :: bool

fun apply_event :: "event \<Rightarrow> LoginForm \<Rightarrow> LoginForm" where
  "apply_event (SetIsLoading b) st = st\<lparr>isLoading := b\<rparr>"
| "apply_event (SetError e) st = st\<lparr>form_error := e\<rparr>"
| "apply_event (Fetch url init) st = st"
| "apply_event (ConsoleError args) st = st"
| "apply_event (RouterPush path) st = st"

definition after :: "event list \<Rightarrow> LoginForm \<Rightarrow> LoginForm" where
  "after evs st = fold apply_event evs st"

text \<open>
  Lines 78 to 82: the error box is rendered when \<^verbatim>\<open>error\<close> is truthy, with the text of
  \<^verbatim>\<open>error\<close>; \<open>None\<close> when no box is rendered.
\<close>

definition rendered_error :: "LoginForm \<Rightarrow> string option" where
  "rendered_error st = (case form_error st of
       None \<Rightarrow> None
     | Some e \<Rightarrow> if e = [] then None else Some e)"

text \<open>
  What \<^verbatim>\<open>throw new Error(x)\<close> throws: the \<^verbatim>\<open>Error\<close> whose message is the text of
  \<^verbatim>\<open>x\<close>, or what the conversion of \<^verbatim>\<open>x\<close> to that text throws.
\<close>

definition new_Error :: "platform \<Rightarrow> json \<Rightarrow> thrown" where
  "new_Error p x = (case ToString (to_primitive_message p) x of
       Inl e \<Rightarrow> e
     | Inr m \<Rightarrow> ErrorObj m)"

text \<open>
  The \<^verbatim>\<open>try\<close> block of \<^verbatim>\<open>onSubmit\<close>, lines 36 to 47: the events it caused, and whether it
  finished or threw.
\<close>

definition login_attempt :: "platform \<Rightarrow> json \<Rightarrow> event list \<times> (thrown + unit)" where
  "login_attempt p values =
     (case api_post p ''/api/auth/login'' (Some values) None of
        (evs, Inl e) \<Rightarrow> (evs, Inl e)
      | (evs, Inr response) \<Rightarrow>
          if truthy (data response) then
            (evs @ [RouterPush ''/home''], router_push p ''/home'')
          else
            (evs @ [ConsoleError [LogValue (error response)]],
             Inl (new_Error p (or_else (error response) ''Login failed''))))"

definition onSubmit :: "platform \<Rightarrow> json \<Rightarrow> event list" where
  "onSubmit p values =
     [SetIsLoading True, SetError None]
     @ (case login_attempt p values of
          (evs, Inl err) \<Rightarrow>
            evs @ [SetError (Some (case err of
                     ErrorObj m \<Rightarrow> m
                   | NonError \<Rightarrow> ''Login failed. Please try again.''))]
        | (evs, Inr done) \<Rightarrow> evs)
     @ [SetIsLoading False]"

text \<open>
  \<^verbatim>\<open>form.handleSubmit(onSubmit)\<close> with the schema's resolver, by the form library's
  documented behaviour: the submitted values are validated, and \<^verbatim>\<open>onSubmit\<close> is called
  with the parsed values only when validation succeeds.
\<close>

definition handleSubmit :: "(string \<Rightarrow> bool) \<Rightarrow> platform \<Rightarrow> json \<Rightarrow> event list" where
  "handleSubmit is_email p submitted = (case LoginBody is_email (Some submitted) of
       Inl issues \<Rightarrow> []
     | Inr values \<Rightarrow> onSubmit p values)"


section \<open>Reading a trace and a result\<close>

definition is_fetch :: "event \<Rightarrow> bool" where
  "is_fetch ev = (case ev of Fetch url init \<Rightarrow> True | _ \<Rightarrow> False)"

definition is_set_loading :: "event \<Rightarrow> bool" where
  "is_set_loading ev = (case ev of SetIsLoading b \<Rightarrow> True | _ \<Rightarrow> False)"

text \<open>
  The header a request carries under a name. \<^verbatim>\<open>fetch\<close> fills the header list of the
  request from the properties of the headers object in their order, each value
  converted to a string and stripped of leading and trailing HTTP whitespace. Names
  are compared without regard to the case of letters, and the values of one name are
  combined, joined by a comma and a space. (Where a name or a value is not a valid
  one, \<^verbatim>\<open>fetch\<close> throws and issues no request.)
\<close>

definition lower_char :: "char \<Rightarrow> char" where
  "lower_char c =
     (case map_of (zip ''ABCDEFGHIJKLMNOPQRSTUVWXYZ'' ''abcdefghijklmnopqrstuvwxyz'') c of
        None \<Rightarrow> c
      | Some l \<Rightarrow> l)"

definition lower :: "string \<Rightarrow> string" where
  "lower s = map lower_char s"

definition is_http_whitespace :: "char \<Rightarrow> bool" where
  "is_http_whitespace c = (c = CHR 0x09 \<or> c = CHR 0x0A \<or> c = CHR 0x0D \<or> c = CHR 0x20)"

definition normalize_value :: "string \<Rightarrow> string" where
  "normalize_value s = rev (dropWhile is_http_whitespace (rev (dropWhile is_http_whitespace s)))"

fun prop_text :: "header_prop \<Rightarrow> string" where
  "prop_text (PropString s) = s"
| "prop_text (PropPair name v) = name @ '','' @ v"

fun combine :: "string list \<Rightarrow> string" where
  "combine [] = []"
| "combine [s] = s"
| "combine (s # t # ts) = s @ '', '' @ combine (t # ts)"

definition header_get :: "(string \<times> header_prop) list \<Rightarrow> string \<Rightarrow> string option" where
  "header_get obj name =
     (case filter (\<lambda>(k, v). lower k = lower name) obj of
        [] \<Rightarrow> None
      | kv # kvs \<Rightarrow> Some (combine (map (\<lambda>(k, v). normalize_value (prop_text v)) (kv # kvs))))"

definition content_type_sent :: "event \<Rightarrow> string option" where
  "content_type_sent ev = (case ev of
       Fetch url init \<Rightarrow> header_get (req_headers init) ''Content-Type''
     | _ \<Rightarrow> None)"

definition result_error :: "event list \<times> (thrown + ApiResponse) \<Rightarrow> json option" where
  "result_error res = (case snd res of Inl e \<Rightarrow> None | Inr r \<Rightarrow> error r)"

definition result_status :: "event list \<times> (thrown + ApiResponse) \<Rightarrow> nat option" where
  "result_status res = (case snd res of Inl e \<Rightarrow> None | Inr r \<Rightarrow> Some (statusCode r))"

section \<open>Example platforms\<close>

text \<open>
  The concrete cases below run on a platform with no environment variable set, whose
  \<^verbatim>\<open>fetch\<close> settles to a given outcome and whose router never throws. Its
  \<^verbatim>\<open>JSON.stringify\<close> is right for values whose strings need no escaping. A response
  of it carries a JSON content type.
\<close>

fun stringify :: "json \<Rightarrow> string" where
  "stringify JNull = ''null''"
| "stringify (JBool b) = (if b then ''true'' else ''false'')"
| "stringify (JNum n) = n"
| "stringify (JStr s) = CHR 0x22 # s @ [CHR 0x22]"
| "stringify (JArr xs) = ''['' @ join (map stringify xs) @ '']''"
| "stringify (JObj kvs) =
     ''{'' @ join (map (\<lambda>(k, v). CHR 0x22 # k @ [CHR 0x22] @ '':'' @ stringify v) kvs) @ ''}''"

definition example_platform :: "(thrown + Response) \<Rightarrow> platform" where
  "example_platform outcome =
     \<lparr>NEXT_PUBLIC_API_URL = None,
      JSON_stringify = (\<lambda>v. Inr (stringify v)),
      fetch = (\<lambda>url init. outcome),
      null_read_message = ''Cannot read properties of null (reading 'message')'',
      to_primitive_message = ''Cannot convert object to primitive value'',
      router_push = (\<lambda>path. Inr ())\<rparr>"

definition json_response :: "nat \<Rightarrow> bool \<Rightarrow> thrown + json \<Rightarrow> Response" where
  "json_response code is_ok parsed =
     \<lparr>status = code, ok = is_ok, content_type = Some ''application/json; charset=utf-8'',
      json_body = parsed, text_body = Inl (ErrorObj ''body stream already read'')\<rparr>"

definition example_login :: json where
  "example_login = JObj [(''email'', JStr ''a@b.co''), (''password'', JStr ''secret1'')]"

definition example_login_request :: event where
  "example_login_request =
     Fetch ''http://localhost:8000/api/api/auth/login''
       \<lparr>req_method = POST,
        req_headers = [(''Content-Type'', PropString ''application/json'')],
        req_body = Some (stringify example_login), req_cache = None, req_credentials = None\<rparr>"

definition has_at_sign :: "string \<Rightarrow> bool" where
  "has_at_sign s = str_includes s ''@''"

definition fresh_form :: LoginForm where
  "fresh_form = \<lparr>isLoading = False, form_error = None, showPassword = False\<rparr>"

section \<open>What \<^verbatim>\<open>apiRequest\<close> returns\<close>

lemma is_json_example [simp]: "is_json (Some ''application/json; charset=utf-8'')"
  by (simp add: is_json_def)

lemma apiRequest_try_calls:
  "fst (apiRequest_try p endpoint options) = []
   \<or> (\<exists>init. fst (apiRequest_try p endpoint options) = [Fetch (API_BASE_URL p @ endpoint) init])"
  by (auto simp: apiRequest_try_def Let_def split: sum.splits)

lemma apiRequest_calls:
  "fst (apiRequest p endpoint options) = fst (apiRequest_try p endpoint options)"
  by (auto simp: apiRequest_def split: prod.splits sum.splits)

text \<open>
  The promise of \<^verbatim>\<open>apiRequest\<close> is never rejected, and its value has exactly one of
  \<^verbatim>\<open>data\<close> and \<^verbatim>\<open>error\<close>.
\<close>

lemma apiRequest_fulfilled: "\<exists>r. snd (apiRequest p endpoint options) = Inr r"
  by (auto simp: apiRequest_def split: prod.splits sum.splits)

lemma from_response_data_xor_error:
  "from_response p response = Inr r \<Longrightarrow> (data r = None) \<noteq> (error r = None)"
  by (auto simp: from_response_def split: if_splits sum.splits)

lemma apiRequest_data_xor_error:
  "snd (apiRequest p endpoint options) = Inr r \<Longrightarrow> (data r = None) \<noteq> (error r = None)"
  by (auto simp: apiRequest_def apiRequest_try_def caught_def Let_def
      dest: from_response_data_xor_error split: prod.splits sum.splits)

text \<open>
  \<^verbatim>\<open>data\<close> is there exactly when the response was ok and nothing threw.
\<close>

lemma from_response_data:
  "from_response p response = Inr r \<Longrightarrow> (data r \<noteq> None) = ok response"
  by (auto simp: from_response_def split: if_splits sum.splits)

text \<open>
  Claim C2, uniform error shaping: \<^verbatim>\<open>apiRequest\<close> never rejects and returns a status
  code with either \<^verbatim>\<open>data\<close> or an \<^verbatim>\<open>error\<close> string. The lemmas above give all of it but
  the string: a response that is not ok and whose JSON body has a truthy \<^verbatim>\<open>message\<close>
  gets that value as its \<^verbatim>\<open>error\<close>, whatever its type. Here the server answers 400 with
  a list of validation messages, and \<^verbatim>\<open>error\<close> is that list, against the declared
  \<^verbatim>\<open>error?: string\<close> of \<^verbatim>\<open>ApiResponse\<close>.
\<close>

theorem apiRequest_error_not_a_string:
  "apiRequest
     (example_platform (Inr (json_response 400 False
        (Inr (JObj [(''statusCode'', JNum ''400''),
                    (''message'', JArr [JStr ''email must be an email'']),
                    (''error'', JStr ''Bad Request'')])))))
     ''/users'' no_options
   = ([Fetch ''http://localhost:8000/api/users''
         \<lparr>req_method = GET, req_headers = [(''Content-Type'', PropString ''application/json'')],
          req_body = None, req_cache = None, req_credentials = None\<rparr>],
      Inr \<lparr>data = None, error = Some (JArr [JStr ''email must be an email'']),
           statusCode = 400\<rparr>)"
  by (simp add: apiRequest_def apiRequest_try_def requestOptions_def requestHeaders_def object_spread_def
      no_options_def example_platform_def json_response_def API_BASE_URL_def
      from_response_def get_message_def or_else_def)

text \<open>
  Claim C3 as stated, that the \<^verbatim>\<open>error\<close> of a caught exception is one generic message
  whatever the exception, fails: a failed connection and a body that does not parse
  give two different \<^verbatim>\<open>error\<close> texts, each the message of its exception.
\<close>

theorem apiRequest_error_not_generic:
  "result_error (apiRequest (example_platform (Inl (ErrorObj ''Failed to fetch'')))
       ''/users'' no_options)
     = Some (JStr ''Failed to fetch'')
   \<and> result_error (apiRequest (example_platform (Inr (json_response 200 True
          (Inl (ErrorObj ''Unexpected end of JSON input''))))) ''/users'' no_options)
     = Some (JStr ''Unexpected end of JSON input'')"
  by (simp add: result_error_def apiRequest_def apiRequest_try_def requestOptions_def
      no_options_def example_platform_def json_response_def from_response_def caught_def)

text \<open>
  Claim C3, amended: for every exception caught inside \<^verbatim>\<open>apiRequest\<close>, the \<^verbatim>\<open>error\<close> of
  the result is the message of the exception when it is an \<^verbatim>\<open>Error\<close>, and the generic
  text \<^verbatim>\<open>Network error\<close> for any other thrown value.
\<close>

theorem apiRequest_caught_error:
  assumes "snd (apiRequest_try p endpoint options) = Inl e"
  shows "result_error (apiRequest p endpoint options)
     = Some (JStr (case e of ErrorObj m \<Rightarrow> m | NonError \<Rightarrow> ''Network error''))"
  using assms by (auto simp: result_error_def apiRequest_def caught_def split: prod.splits)

text \<open>A \<^verbatim>\<open>fetch\<close> that throws a value that is no \<^verbatim>\<open>Error\<close> gives the generic text.\<close>

theorem apiRequest_caught_error_witness:
  "snd (apiRequest_try (example_platform (Inl NonError)) ''/users'' no_options) = Inl NonError
   \<and> result_error (apiRequest (example_platform (Inl NonError)) ''/users'' no_options)
     = Some (JStr ''Network error'')"
proof -
  have h: "snd (apiRequest_try (example_platform (Inl NonError)) ''/users'' no_options)
      = Inl NonError"
    by (simp add: apiRequest_try_def requestOptions_def no_options_def example_platform_def)
  show ?thesis using h apiRequest_caught_error [OF h] by simp
qed

text \<open>
  Claim C10: whenever \<^verbatim>\<open>apiRequest\<close> catches an exception, the status code of its result
  is 500; in particular when \<^verbatim>\<open>fetch\<close> gave a response with a JSON content type whose
  body does not parse, whatever the status of that response.
\<close>

theorem apiRequest_caught_status:
  "(snd (apiRequest_try p endpoint options) = Inl e
      \<longrightarrow> result_status (apiRequest p endpoint options) = Some 500)
   \<and> (requestOptions p options = Inr init
        \<and> fetch p (API_BASE_URL p @ endpoint) init = Inr response
        \<and> is_json (content_type response) \<and> json_body response = Inl e
      \<longrightarrow> result_status (apiRequest p endpoint options) = Some 500)"
  by (auto simp: result_status_def apiRequest_def apiRequest_try_def caught_def from_response_def
      split: prod.splits sum.splits)

text \<open>A response with status 200 whose body does not parse comes back with 500.\<close>

theorem apiRequest_caught_status_witness:
  "status (json_response 200 True (Inl (ErrorObj ''Unexpected end of JSON input''))) = 200
   \<and> requestOptions
        (example_platform (Inr (json_response 200 True
           (Inl (ErrorObj ''Unexpected end of JSON input'')))))
        no_options
      = Inr \<lparr>req_method = GET, req_headers = [(''Content-Type'', PropString ''application/json'')],
             req_body = None, req_cache = None, req_credentials = None\<rparr>
   \<and> is_json (content_type
        (json_response 200 True (Inl (ErrorObj ''Unexpected end of JSON input''))))
   \<and> json_body (json_response 200 True (Inl (ErrorObj ''Unexpected end of JSON input'')))
      = Inl (ErrorObj ''Unexpected end of JSON input'')
   \<and> snd (apiRequest_try
        (example_platform (Inr (json_response 200 True
           (Inl (ErrorObj ''Unexpected end of JSON input'')))))
        ''/users'' no_options) = Inl (ErrorObj ''Unexpected end of JSON input'')
   \<and> result_status (apiRequest
        (example_platform (Inr (json_response 200 True
           (Inl (ErrorObj ''Unexpected end of JSON input'')))))
        ''/users'' no_options) = Some 500"
proof -
  let ?response = "json_response 200 True (Inl (ErrorObj ''Unexpected end of JSON input''))"
  let ?p = "example_platform (Inr ?response)"
  let ?init = "\<lparr>req_method = GET, req_headers = [(''Content-Type'', PropString ''application/json'')],
             req_body = None, req_cache = None, req_credentials = None\<rparr>"
  have s: "status ?response = 200"
    by (simp add: json_response_def)
  have h1: "snd (apiRequest_try ?p ''/users'' no_options)
      = Inl (ErrorObj ''Unexpected end of JSON input'')"
    by (simp add: apiRequest_try_def requestOptions_def no_options_def example_platform_def
        json_response_def from_response_def)
  have h2: "requestOptions ?p no_options = Inr ?init"
    by (simp add: requestOptions_def requestHeaders_def object_spread_def no_options_def)
  have h3: "fetch ?p (API_BASE_URL ?p @ ''/users'') ?init = Inr ?response"
    by (simp add: example_platform_def)
  have h4: "is_json (content_type ?response)
      \<and> json_body ?response = Inl (ErrorObj ''Unexpected end of JSON input'')"
    by (simp add: json_response_def)
  show ?thesis
    using s h1 h2 h3 h4 apiRequest_caught_status
      [of ?p "''/users''" no_options "ErrorObj ''Unexpected end of JSON input''" ?init ?response]
    by blast
qed

section \<open>The headers of a request\<close>

lemma string_of_nat_digits: "c \<in> set (string_of_nat n) \<Longrightarrow> c \<in> set ''0123456789''"
proof (induction n rule: string_of_nat.induct)
  case (1 n)
  show ?case
  proof (cases "n < 10")
    case True
    with "1.prems" have "c = ''0123456789'' ! n"
      by (simp add: string_of_nat.simps [of n])
    moreover from True have "''0123456789'' ! n \<in> set ''0123456789''"
      by (intro nth_mem) simp
    ultimately show ?thesis by simp
  next
    case False
    with "1.prems" have "c \<in> set (string_of_nat (n div 10)) \<or> c = ''0123456789'' ! (n mod 10)"
      by (auto simp: string_of_nat.simps [of n])
    moreover have "''0123456789'' ! (n mod 10) \<in> set ''0123456789''"
      by (intro nth_mem) simp
    ultimately show ?thesis using "1.IH" False by auto
  qed
qed

lemma lower_Content_Type [simp]: "lower ''Content-Type'' = ''content-type''"
  by (simp add: lower_def lower_char_def)

lemma index_is_no_content_type: "lower (string_of_nat i) \<noteq> ''content-type''"
proof
  assume eq: "lower (string_of_nat i) = ''content-type''"
  have "CHR ''c'' \<in> set (lower (string_of_nat i))"
    by (simp add: eq)
  then obtain d where d: "d \<in> set (string_of_nat i)" and c: "lower_char d = CHR ''c''"
    by (auto simp: lower_def)
  from d have "d \<in> set ''0123456789''"
    by (rule string_of_nat_digits)
  with c show False
    by (auto simp: lower_char_def)
qed

lemma assign_other_name:
  "lower k \<noteq> lower name \<Longrightarrow>
     filter (\<lambda>(k', v'). lower k' = lower name) (assign k v obj)
       = filter (\<lambda>(k', v'). lower k' = lower name) obj"
  by (induction obj) auto

lemma object_spread_other_names:
  assumes "list_all (\<lambda>(k, v). lower k \<noteq> lower name) props"
  shows "filter (\<lambda>(k', v'). lower k' = lower name) (object_spread obj props)
       = filter (\<lambda>(k', v'). lower k' = lower name) obj"
  using assms unfolding object_spread_def
  by (induction props arbitrary: obj) (auto simp: assign_other_name)

lemma assign_new: "k \<notin> fst ` set obj \<Longrightarrow> assign k v obj = obj @ [(k, v)]"
  by (induction obj) auto

lemma object_spread_distinct:
  assumes "distinct (map fst props)" and "c \<notin> fst ` set acc"
    and "fst ` set props \<inter> fst ` set acc = {}"
  shows "object_spread ((c, x) # acc) props
     = (c, case map_of props c of None \<Rightarrow> x | Some v \<Rightarrow> v) # acc
       @ filter (\<lambda>(k, v). k \<noteq> c) props"
  using assms unfolding object_spread_def
proof (induction props arbitrary: acc x)
  case Nil
  then show ?case by simp
next
  case (Cons kv props)
  obtain k v where kv: "kv = (k, v)" by (cases kv)
  show ?case
  proof (cases "k = c")
    case True
    with Cons.prems kv have "map_of props c = None"
      by (auto simp: map_of_eq_None_iff)
    with Cons.IH [of acc v] Cons.prems kv True show ?thesis
      by auto
  next
    case False
    from Cons.prems kv have knew: "k \<notin> fst ` set acc" by auto
    have "foldl (\<lambda>a (k, v). assign k v a) ((c, x) # acc) (kv # props)
        = foldl (\<lambda>a (k, v). assign k v a) ((c, x) # (acc @ [(k, v)])) props"
      using False kv by (simp add: assign_new [OF knew])
    also have "\<dots> = (c, case map_of props c of None \<Rightarrow> x | Some v \<Rightarrow> v) # (acc @ [(k, v)])
       @ filter (\<lambda>(k, v). k \<noteq> c) props"
      using Cons.prems kv False by (intro Cons.IH) auto
    finally show ?thesis using False kv by simp
  qed
qed

lemma normalize_json [simp]: "normalize_value ''application/json'' = ''application/json''"
  by (simp add: normalize_value_def is_http_whitespace_def)

text \<open>
  The \<^verbatim>\<open>Content-Type\<close> that the headers object of \<^verbatim>\<open>apiRequest\<close> gives a request, for each
  form of the caller's headers.
\<close>

lemma requestHeaders_content_type:
  assumes "case headers options of Some (HeadersRecord kvs) \<Rightarrow> distinct (map fst kvs) | _ \<Rightarrow> True"
  shows "header_get (requestHeaders options) ''Content-Type'' = Some (case headers options of
       Some (HeadersRecord kvs) \<Rightarrow>
         combine (map normalize_value
           ((case map_of kvs ''Content-Type'' of None \<Rightarrow> ''application/json'' | Some v \<Rightarrow> v)
            # map snd (filter (\<lambda>(k, v). k \<noteq> ''Content-Type'' \<and> lower k = ''content-type'') kvs)))
     | _ \<Rightarrow> ''application/json'')"
proof (cases "headers options")
  case None
  then show ?thesis
    by (simp add: requestHeaders_def object_spread_def header_get_def)
next
  case (Some h)
  show ?thesis
  proof (cases h)
    case (HeadersRecord kvs)
    let ?props = "map (\<lambda>(k, v). (k, PropString v)) kvs"
    have keys: "map fst ?props = map fst kvs"
      by (induction kvs) auto
    from assms Some HeadersRecord have "distinct (map fst kvs)"
      by simp
    then have d: "distinct (map fst ?props)"
      unfolding keys .
    have first: "(case map_of ?props ''Content-Type'' of
          None \<Rightarrow> PropString ''application/json'' | Some v \<Rightarrow> v)
        = PropString (case map_of kvs ''Content-Type'' of
            None \<Rightarrow> ''application/json'' | Some v \<Rightarrow> v)"
      by (induction kvs) auto
    have others: "map (\<lambda>(k, v). normalize_value (prop_text v))
          (filter (\<lambda>x. (case x of (k, v) \<Rightarrow> k \<noteq> ''Content-Type'')
                    \<and> (case x of (k, v) \<Rightarrow> lower k = ''content-type'')) ?props)
        = map (normalize_value \<circ> snd)
            (filter (\<lambda>(k, v). k \<noteq> ''Content-Type'' \<and> lower k = ''content-type'') kvs)"
      by (induction kvs) auto
    have "requestHeaders options
        = (''Content-Type'', case map_of ?props ''Content-Type'' of
             None \<Rightarrow> PropString ''application/json'' | Some v \<Rightarrow> v) # []
          @ filter (\<lambda>(k, v). k \<noteq> ''Content-Type'') ?props"
      unfolding requestHeaders_def using Some HeadersRecord
      by (simp add: object_spread_distinct [OF d, of "''Content-Type''" "[]"])
    then show ?thesis
      using Some HeadersRecord by (simp add: header_get_def first others)
  next
    case (HeadersPairs ps)
    have "list_all (\<lambda>(k, v). lower k \<noteq> lower ''Content-Type'') (own_properties (HeadersPairs ps))"
      by (auto simp: list_all_iff index_is_no_content_type)
    from object_spread_other_names [OF this]
    show ?thesis
      using Some HeadersPairs by (simp add: requestHeaders_def header_get_def)
  next
    case (HeadersInstance hs)
    then show ?thesis
      using Some by (simp add: requestHeaders_def object_spread_def header_get_def)
  qed
qed

lemma apiRequest_call_headers:
  assumes "Fetch url init \<in> set (fst (apiRequest p endpoint options))"
  shows "req_headers init = requestHeaders options"
  using assms
  by (auto simp: apiRequest_def apiRequest_try_def requestOptions_def Let_def
      split: prod.splits sum.splits option.splits)

text \<open>
  Claim C5 as stated, that every request carries \<^verbatim>\<open>Content-Type: application/json\<close>
  whatever headers the caller supplies, fails: the caller's headers are spread after
  the default, so a caller's \<^verbatim>\<open>Content-Type\<close> replaces it.
\<close>

theorem content_type_overridden:
  "map content_type_sent
     (fst (apiRequest (example_platform (Inl NonError)) ''/users''
        (no_options\<lparr>headers := Some (HeadersRecord [(''Content-Type'', ''text/plain'')])\<rparr>)))
   = [Some ''text/plain'']"
  by (simp add: content_type_sent_def header_get_def apiRequest_def apiRequest_try_def
      requestOptions_def requestHeaders_def object_spread_def no_options_def
      example_platform_def normalize_value_def is_http_whitespace_def)

text \<open>
  Claim C5, amended: every request issued by \<^verbatim>\<open>apiRequest\<close> carries a \<^verbatim>\<open>Content-Type\<close>
  header. Its value is \<^verbatim>\<open>application/json\<close> when the caller supplies no headers, a
  \<^verbatim>\<open>Headers\<close> instance or an array of pairs, from which the spread copies no header.
  When the caller supplies a plain object, the value starts with that of the object's
  property named exactly \<^verbatim>\<open>Content-Type\<close>, or with \<^verbatim>\<open>application/json\<close> when there is
  none, and goes on with the values of the properties whose names differ from
  \<^verbatim>\<open>Content-Type\<close> only in the case of letters, in their order, each stripped of
  surrounding whitespace and joined to the one before by a comma and a space.
\<close>

theorem request_content_type:
  assumes "Fetch url init \<in> set (fst (apiRequest p endpoint options))"
    and "case headers options of
           Some (HeadersRecord kvs) \<Rightarrow> distinct (map fst kvs)
         | _ \<Rightarrow> True"
  shows "header_get (req_headers init) ''Content-Type'' = Some (case headers options of
       Some (HeadersRecord kvs) \<Rightarrow>
         combine (map normalize_value
           ((case map_of kvs ''Content-Type'' of None \<Rightarrow> ''application/json'' | Some v \<Rightarrow> v)
            # map snd (filter (\<lambda>(k, v). k \<noteq> ''Content-Type'' \<and> lower k = ''content-type'') kvs)))
     | _ \<Rightarrow> ''application/json'')"
  using apiRequest_call_headers [OF assms(1)] requestHeaders_content_type [OF assms(2)]
  by simp

text \<open>
  A caller that sets \<^verbatim>\<open>content-type\<close> in small letters: the request carries the default
  and the caller's value, combined.
\<close>

theorem request_content_type_witness:
  "Fetch ''http://localhost:8000/api/users''
     \<lparr>req_method = GET,
      req_headers = [(''Content-Type'', PropString ''application/json''),
                     (''content-type'', PropString ''text/plain'')],
      req_body = None, req_cache = None, req_credentials = None\<rparr>
     \<in> set (fst (apiRequest (example_platform (Inl NonError)) ''/users''
          (no_options\<lparr>headers := Some (HeadersRecord [(''content-type'', ''text/plain'')])\<rparr>)))
   \<and> distinct (map fst [(''content-type'', ''text/plain'')])
   \<and> header_get [(''Content-Type'', PropString ''application/json''),
                  (''content-type'', PropString ''text/plain'')] ''Content-Type''
     = Some ''application/json, text/plain''"
proof -
  let ?init = "\<lparr>req_method = GET,
      req_headers = [(''Content-Type'', PropString ''application/json''),
                     (''content-type'', PropString ''text/plain'')],
      req_body = None, req_cache = None, req_credentials = None\<rparr>"
  let ?options = "no_options\<lparr>headers := Some (HeadersRecord [(''content-type'', ''text/plain'')])\<rparr>"
  have h1: "Fetch ''http://localhost:8000/api/users'' ?init
     \<in> set (fst (apiRequest (example_platform (Inl NonError)) ''/users'' ?options))"
    by (simp add: apiRequest_def apiRequest_try_def requestOptions_def requestHeaders_def
        object_spread_def no_options_def example_platform_def API_BASE_URL_def)
  have h2: "case headers ?options of
           Some (HeadersRecord kvs) \<Rightarrow> distinct (map fst kvs)
         | _ \<Rightarrow> True"
    by (simp add: no_options_def)
  have l: "lower ''content-type'' = ''content-type''"
    by (simp add: lower_def lower_char_def)
  have n: "normalize_value ''text/plain'' = ''text/plain''"
    by (simp add: normalize_value_def is_http_whitespace_def)
  show ?thesis
    using h1 request_content_type [OF h1 h2] by (simp add: no_options_def l n)
qed

text \<open>
  The other two forms at work: the spread copies no header from a \<^verbatim>\<open>Headers\<close> instance,
  and from an array of pairs it copies the pairs under their indices, so the caller's
  \<^verbatim>\<open>Content-Type\<close> is not sent as one and the default stays.
\<close>

lemma headers_instance_not_copied:
  "requestHeaders (no_options\<lparr>headers := Some (HeadersInstance [(''content-type'', ''text/plain'')])\<rparr>)
     = [(''Content-Type'', PropString ''application/json'')]"
  by (simp add: requestHeaders_def object_spread_def no_options_def)

lemma headers_pairs_copied_by_index:
  "requestHeaders (no_options\<lparr>headers := Some (HeadersPairs [(''Content-Type'', ''text/plain'')])\<rparr>)
     = [(''Content-Type'', PropString ''application/json''),
        (''0'', PropPair ''Content-Type'' ''text/plain'')]"
  by (simp add: requestHeaders_def object_spread_def no_options_def enumerate_eq_zip
      string_of_nat.simps)

section \<open>The client of \<^verbatim>\<open>createApiClient\<close>\<close>

lemma api_get_calls:
  "fst (api_get p endpoint options) = []
   \<or> (\<exists>init. fst (api_get p endpoint options) = [Fetch (API_BASE_URL p @ endpoint) init])"
  using apiRequest_try_calls [of p endpoint "(spread options)\<lparr>httpMethod := Some GET\<rparr>"]
  by (simp add: api_get_def apiRequest_calls)

lemma validate_logged_cases:
  "validate_logged schema r = [] \<or> (\<exists>args. validate_logged schema r = [ConsoleError args])"
  by (cases "data r") (auto simp: validate_logged_def split: sum.splits)

lemma validate_logged_no_fetch: "filter is_fetch (validate_logged schema r) = []"
  using validate_logged_cases [of schema r] by (auto simp: is_fetch_def)

text \<open>
  Claim C9: in the client of \<^verbatim>\<open>createApiClient\<close> a schema validation failure never
  changes what is returned. \<^verbatim>\<open>getAll\<close> returns the result of the GET request and issues
  the same requests, whatever the schema does; when \<^verbatim>\<open>schema.parse\<close> throws on the
  data, the only effect is one call of \<^verbatim>\<open>console.error\<close>. \<^verbatim>\<open>getById\<close>, \<^verbatim>\<open>create\<close>,
  \<^verbatim>\<open>update\<close> and \<^verbatim>\<open>remove\<close> are the plain requests, the schema unused: for an id
  that is a string or a number the path is the endpoint, a slash and the text of the
  id, and an id whose conversion to text throws rejects the promise with no request.
\<close>

theorem client_validation_never_changes_result:
  "snd (getAll (createApiClient p endpoint schema) options) = snd (api_get p endpoint options)
   \<and> filter is_fetch (fst (getAll (createApiClient p endpoint schema) options))
       = fst (api_get p endpoint options)
   \<and> (snd (api_get p endpoint options) = Inr r \<and> data r = Some d \<and> ToBoolean d
        \<and> schema d = Inl e
      \<longrightarrow> getAll (createApiClient p endpoint schema) options
          = (fst (api_get p endpoint options)
               @ [ConsoleError [LogText ''API response validation failed:'', LogThrown e]],
             Inr r))
   \<and> getById (createApiClient p endpoint schema) ident options
       = (case ToString (to_primitive_message p) ident of
            Inl thrown_by_id \<Rightarrow> ([], Inl thrown_by_id)
          | Inr t \<Rightarrow> api_get p (endpoint @ ''/'' @ t) options)
   \<and> create (createApiClient p endpoint schema) payload options
       = api_post p endpoint (Some payload) options
   \<and> update (createApiClient p endpoint schema) ident payload options
       = (case ToString (to_primitive_message p) ident of
            Inl thrown_by_id \<Rightarrow> ([], Inl thrown_by_id)
          | Inr t \<Rightarrow> api_put p (endpoint @ ''/'' @ t) (Some payload) options)
   \<and> remove (createApiClient p endpoint schema) ident options
       = (case ToString (to_primitive_message p) ident of
            Inl thrown_by_id \<Rightarrow> ([], Inl thrown_by_id)
          | Inr t \<Rightarrow> api_delete p (endpoint @ ''/'' @ t) options)"
proof -
  have same: "snd (getAll (createApiClient p endpoint schema) options)
      = snd (api_get p endpoint options)"
    by (cases "api_get p endpoint options") (simp add: createApiClient_def split: sum.splits)
  have requests: "filter is_fetch (fst (getAll (createApiClient p endpoint schema) options))
       = fst (api_get p endpoint options)"
    using api_get_calls [of p endpoint options]
    by (cases "api_get p endpoint options")
       (auto simp: createApiClient_def validate_logged_no_fetch is_fetch_def split: sum.splits)
  have logged: "getAll (createApiClient p endpoint schema) options
          = (fst (api_get p endpoint options)
               @ [ConsoleError [LogText ''API response validation failed:'', LogThrown e]],
             Inr r)"
    if "snd (api_get p endpoint options) = Inr r" "data r = Some d" "ToBoolean d"
      "schema d = Inl e"
    using that
    by (cases "api_get p endpoint options") (simp add: createApiClient_def validate_logged_def)
  from same requests logged show ?thesis by (simp add: createApiClient_def)
qed

text \<open>
  A list arrives where the schema wants something else: \<^verbatim>\<open>getAll\<close> logs the failure and
  returns the response as it came.
\<close>

theorem client_validation_never_changes_result_witness:
  "snd (api_get (example_platform (Inr (json_response 200 True (Inr (JArr [JNum ''1''])))))
        ''/users'' None)
     = Inr \<lparr>data = Some (JArr [JNum ''1'']), error = None, statusCode = 200\<rparr>
   \<and> getAll (createApiClient
        (example_platform (Inr (json_response 200 True (Inr (JArr [JNum ''1''])))))
        ''/users'' (\<lambda>v. Inl (ErrorObj ''Expected object, received array''))) None
     = ([Fetch ''http://localhost:8000/api/users''
           \<lparr>req_method = GET, req_headers = [(''Content-Type'', PropString ''application/json'')],
            req_body = None, req_cache = None, req_credentials = None\<rparr>,
         ConsoleError [LogText ''API response validation failed:'',
                       LogThrown (ErrorObj ''Expected object, received array'')]],
        Inr \<lparr>data = Some (JArr [JNum ''1'']), error = None, statusCode = 200\<rparr>)"
proof -
  let ?p = "example_platform (Inr (json_response 200 True (Inr (JArr [JNum ''1'']))))"
  let ?r = "\<lparr>data = Some (JArr [JNum ''1'']), error = None, statusCode = 200\<rparr>"
  let ?init = "\<lparr>req_method = GET, req_headers = [(''Content-Type'', PropString ''application/json'')],
            req_body = None, req_cache = None, req_credentials = None\<rparr>"
  have g: "api_get ?p ''/users'' None = ([Fetch ''http://localhost:8000/api/users'' ?init], Inr ?r)"
    by (simp add: api_get_def spread_def apiRequest_def apiRequest_try_def requestOptions_def
        requestHeaders_def object_spread_def no_options_def example_platform_def json_response_def
        API_BASE_URL_def from_response_def)
  have h: "snd (api_get ?p ''/users'' None) = Inr ?r \<and> data ?r = Some (JArr [JNum ''1''])
     \<and> ToBoolean (JArr [JNum ''1''])
     \<and> (\<lambda>v. Inl (ErrorObj ''Expected object, received array'')) (JArr [JNum ''1''])
         = (Inl (ErrorObj ''Expected object, received array'') :: thrown + json)"
    by (simp add: g)
  show ?thesis
    using h g client_validation_never_changes_result
      [of ?p "''/users''" "\<lambda>v. Inl (ErrorObj ''Expected object, received array'')" None ?r
          "JArr [JNum ''1'']" "ErrorObj ''Expected object, received array''"]
    by simp
qed

section \<open>The login schema and the login form\<close>

lemma LoginBody_succeeds_iff:
  "(\<exists>parsed. LoginBody is_email (Some (JObj kvs)) = Inr parsed) = login_constraints is_email kvs"
  by (auto simp: LoginBody_def z_object_strict_def z_string_def z_email_def z_min_def z_max_def
      at_key_def parsed_at_def login_constraints_def Let_def filter_empty_conv
      split: option.splits json.splits list.splits if_splits)

lemma LoginBody_parsed:
  assumes "LoginBody is_email (Some (JObj kvs)) = Inr parsed"
  shows "\<exists>e pw. map_of kvs ''email'' = Some (JStr e) \<and> map_of kvs ''password'' = Some (JStr pw)
     \<and> parsed = JObj [(''email'', JStr e), (''password'', JStr pw)]"
  using assms
  by (auto simp: LoginBody_def z_object_strict_def z_string_def z_email_def z_min_def z_max_def
      at_key_def parsed_at_def Let_def
      split: option.splits json.splits list.splits if_splits)

text \<open>
  Claim C1: for every submitted object, \<^verbatim>\<open>LoginBody\<close> accepts it exactly when its email
  has the shape of an email, its password has between 6 and 100 characters and it has
  no other field; and a submission that breaks these constraints never reaches
  \<^verbatim>\<open>onSubmit\<close>: the form does nothing, so issues no request.
\<close>

theorem LoginBody_validation:
  "(\<exists>parsed. LoginBody is_email (Some (JObj kvs)) = Inr parsed) = login_constraints is_email kvs
   \<and> (\<not> login_constraints is_email kvs \<longrightarrow> handleSubmit is_email p (JObj kvs) = [])"
  using LoginBody_succeeds_iff [of is_email kvs]
  by (auto simp: handleSubmit_def split: sum.splits)

text \<open>A password of five characters is rejected, and nothing happens.\<close>

theorem LoginBody_validation_witness:
  "\<not> login_constraints has_at_sign [(''email'', JStr ''a@b.co''), (''password'', JStr ''12345'')]
   \<and> handleSubmit has_at_sign (example_platform (Inl NonError))
        (JObj [(''email'', JStr ''a@b.co''), (''password'', JStr ''12345'')]) = []"
proof -
  have h: "\<not> login_constraints has_at_sign
      [(''email'', JStr ''a@b.co''), (''password'', JStr ''12345'')]"
    by (simp add: login_constraints_def)
  show ?thesis
    using h LoginBody_validation [of has_at_sign
        "[(''email'', JStr ''a@b.co''), (''password'', JStr ''12345'')]"
        "example_platform (Inl NonError)"]
    by blast
qed


lemma ToString_throws:
  "ToString msg x = Inl e \<Longrightarrow> e = ErrorObj msg"
  "element_texts msg xs = Inl e \<Longrightarrow> e = ErrorObj msg"
  by (induction msg x and msg xs rule: ToString_element_texts.induct)
     (auto split: sum.splits option.splits if_splits)

lemma api_post_calls:
  "fst (api_post p endpoint payload options) = []
   \<or> (\<exists>init. fst (api_post p endpoint payload options) = [Fetch (API_BASE_URL p @ endpoint) init])"
  unfolding api_post_def apiRequest_calls by (rule apiRequest_try_calls)

lemma api_post_fulfilled: "\<exists>r. snd (api_post p endpoint payload options) = Inr r"
  unfolding api_post_def by (rule apiRequest_fulfilled)

lemma api_post_login_calls:
  assumes "JSON_stringify p v = Inr s"
  shows "fst (api_post p ''/api/auth/login'' (Some v) None) =
     [Fetch (API_BASE_URL p @ ''/api/auth/login'')
        \<lparr>req_method = POST, req_headers = [(''Content-Type'', PropString ''application/json'')],
         req_body = Some s, req_cache = None, req_credentials = None\<rparr>]"
  using assms
  by (auto simp: api_post_def apiRequest_def apiRequest_try_def requestOptions_def
      requestHeaders_def object_spread_def spread_def no_options_def Let_def split: prod.splits sum.splits)

text \<open>
  The trace of \<^verbatim>\<open>onSubmit\<close>: the two state updates, the calls of \<^verbatim>\<open>fetch\<close> made by
  \<^verbatim>\<open>api.post\<close>, what the branch taken does, and the update of the \<^verbatim>\<open>finally\<close> block.
\<close>

lemma onSubmit_shape:
  "\<exists>rest. onSubmit p v =
       [SetIsLoading True, SetError None] @ fst (api_post p ''/api/auth/login'' (Some v) None)
         @ rest @ [SetIsLoading False]
     \<and> filter is_fetch rest = [] \<and> filter is_set_loading rest = []"
  using api_post_fulfilled [of p "''/api/auth/login''" "Some v" None]
  by (cases "api_post p ''/api/auth/login'' (Some v) None")
     (auto simp: onSubmit_def login_attempt_def is_fetch_def is_set_loading_def
       split: sum.splits thrown.splits)

lemma example_login_trace:
  "fst (api_post (example_platform outcome) ''/api/auth/login'' (Some example_login) None)
     = [example_login_request]"
  using api_post_login_calls [of "example_platform outcome" example_login
      "stringify example_login"]
  by (simp add: example_platform_def example_login_request_def API_BASE_URL_def)

text \<open>
  Claim C4, the loading state toggles around the request: after every run of
  \<^verbatim>\<open>onSubmit\<close> the flag \<^verbatim>\<open>isLoading\<close> is false; and wherever a request stands in the trace,
  the updates before it have set \<^verbatim>\<open>isLoading\<close> to true and \<^verbatim>\<open>error\<close> to \<^verbatim>\<open>null\<close> and
  changed nothing else, and what follows it ends by setting \<^verbatim>\<open>isLoading\<close> to false,
  with no other update of the flag in between. This covers every outcome of the
  request.
\<close>

theorem onSubmit_loading_toggles:
  "isLoading (after (onSubmit p v) st) = False
   \<and> (onSubmit p v = pre @ Fetch url init # post
        \<longrightarrow> after pre st = st\<lparr>isLoading := True, form_error := None\<rparr>
          \<and> post \<noteq> [] \<and> last post = SetIsLoading False
          \<and> filter is_set_loading (butlast post) = [])"
proof -
  obtain rest where shape: "onSubmit p v =
       [SetIsLoading True, SetError None] @ fst (api_post p ''/api/auth/login'' (Some v) None)
         @ rest @ [SetIsLoading False]"
    and rest: "filter is_fetch rest = []" "filter is_set_loading rest = []"
    using onSubmit_shape by blast
  have final: "isLoading (after (onSubmit p v) st) = False"
    by (simp add: shape after_def)
  have "after pre st = st\<lparr>isLoading := True, form_error := None\<rparr>
          \<and> post \<noteq> [] \<and> last post = SetIsLoading False
          \<and> filter is_set_loading (butlast post) = []"
    if split: "onSubmit p v = pre @ Fetch url init # post"
  proof -
    have "filter is_fetch (onSubmit p v) \<noteq> []"
      by (simp add: split is_fetch_def)
    then have "fst (api_post p ''/api/auth/login'' (Some v) None) \<noteq> []"
      by (auto simp: shape rest is_fetch_def)
    then obtain init' where calls: "fst (api_post p ''/api/auth/login'' (Some v) None)
        = [Fetch (API_BASE_URL p @ ''/api/auth/login'') init']"
      using api_post_calls [of p "''/api/auth/login''" "Some v" None] by auto
    have eq: "pre @ Fetch url init # post =
        [SetIsLoading True, SetError None] @ Fetch (API_BASE_URL p @ ''/api/auth/login'') init'
          # (rest @ [SetIsLoading False])"
      using split shape calls by simp
    have nofetch: "filter is_fetch (rest @ [SetIsLoading False]) = []"
      by (simp add: rest is_fetch_def)
    have "pre = [SetIsLoading True, SetError None] \<and> post = rest @ [SetIsLoading False]"
    proof (cases pre)
      case Nil
      with eq show ?thesis by simp
    next
      case (Cons a pre1)
      note c1 = Cons
      show ?thesis
      proof (cases pre1)
        case Nil
        with eq c1 show ?thesis by simp
      next
        case (Cons b pre2)
        note c2 = Cons
        show ?thesis
        proof (cases pre2)
          case Nil
          with eq c1 c2 show ?thesis by simp
        next
          case (Cons c pre3)
          with eq c1 c2 have "rest @ [SetIsLoading False] = pre3 @ Fetch url init # post"
            by simp
          then have "filter is_fetch (rest @ [SetIsLoading False]) \<noteq> []"
            by (simp add: is_fetch_def)
          with nofetch show ?thesis by simp
        qed
      qed
    qed
    then show ?thesis by (simp add: after_def rest)
  qed
  with final show ?thesis by blast
qed

text \<open>A login that succeeds: the flag is true from before the request until the end.\<close>

theorem onSubmit_loading_toggles_witness:
  "onSubmit (example_platform (Inr (json_response 200 True (Inr (JObj [(''message'', JStr ''ok'')])))))
       example_login
     = [SetIsLoading True, SetError None]
       @ Fetch ''http://localhost:8000/api/api/auth/login''
           \<lparr>req_method = POST, req_headers = [(''Content-Type'', PropString ''application/json'')],
            req_body = Some (stringify example_login), req_cache = None,
            req_credentials = None\<rparr>
         # [RouterPush ''/home'', SetIsLoading False]
   \<and> after [SetIsLoading True, SetError None] fresh_form
     = fresh_form\<lparr>isLoading := True, form_error := None\<rparr>
   \<and> isLoading (after (onSubmit
        (example_platform (Inr (json_response 200 True (Inr (JObj [(''message'', JStr ''ok'')])))))
        example_login) fresh_form) = False"
proof -
  let ?p = "example_platform (Inr (json_response 200 True (Inr (JObj [(''message'', JStr ''ok'')]))))"
  let ?init = "\<lparr>req_method = POST, req_headers = [(''Content-Type'', PropString ''application/json'')],
            req_body = Some (stringify example_login), req_cache = None,
            req_credentials = None\<rparr>"
  have r: "snd (api_post ?p ''/api/auth/login'' (Some example_login) None)
      = Inr \<lparr>data = Some (JObj [(''message'', JStr ''ok'')]), error = None, statusCode = 200\<rparr>"
    by (simp add: api_post_def spread_def apiRequest_def apiRequest_try_def requestOptions_def
        no_options_def example_platform_def json_response_def from_response_def)
  have h: "onSubmit ?p example_login
     = [SetIsLoading True, SetError None]
       @ Fetch ''http://localhost:8000/api/api/auth/login'' ?init
         # [RouterPush ''/home'', SetIsLoading False]"
    using r example_login_trace [of "Inr (json_response 200 True (Inr (JObj [(''message'', JStr ''ok'')])))"]
    by (cases "api_post ?p ''/api/auth/login'' (Some example_login) None")
       (simp add: onSubmit_def login_attempt_def truthy_def example_login_request_def
         example_platform_def)
  show ?thesis
    using h onSubmit_loading_toggles [of ?p example_login fresh_form
        "[SetIsLoading True, SetError None]" "''http://localhost:8000/api/api/auth/login''"
        ?init "[RouterPush ''/home'', SetIsLoading False]"]
    by simp
qed

text \<open>
  Claim C6: submitting the login form with validated values issues one request, a
  \<^verbatim>\<open>POST\<close> to the base URL followed by the endpoint \<^verbatim>\<open>/api/auth/login\<close>, whose body is the
  JSON text of the object holding the email and the password.
\<close>

theorem login_request:
  assumes "login_constraints is_email kvs"
    and "map_of kvs ''email'' = Some (JStr e)"
    and "map_of kvs ''password'' = Some (JStr pw)"
    and "JSON_stringify p (JObj [(''email'', JStr e), (''password'', JStr pw)]) = Inr s"
  shows "filter is_fetch (handleSubmit is_email p (JObj kvs)) =
     [Fetch (API_BASE_URL p @ ''/api/auth/login'')
        \<lparr>req_method = POST, req_headers = [(''Content-Type'', PropString ''application/json'')],
         req_body = Some s, req_cache = None, req_credentials = None\<rparr>]"
proof -
  from assms(1) obtain v where parsed: "LoginBody is_email (Some (JObj kvs)) = Inr v"
    using LoginBody_succeeds_iff [of is_email kvs] by blast
  with assms(2,3) have v: "v = JObj [(''email'', JStr e), (''password'', JStr pw)]"
    using LoginBody_parsed [OF parsed] by auto
  obtain rest where shape: "onSubmit p v =
       [SetIsLoading True, SetError None] @ fst (api_post p ''/api/auth/login'' (Some v) None)
         @ rest @ [SetIsLoading False]"
    and rest: "filter is_fetch rest = []"
    using onSubmit_shape by blast
  have "handleSubmit is_email p (JObj kvs) = onSubmit p v"
    by (simp add: handleSubmit_def parsed)
  then show ?thesis
    using assms(4) by (simp add: shape [unfolded v] rest v api_post_login_calls is_fetch_def)
qed

text \<open>
  On the example platform, where no base URL is configured, the request of a valid
  submission goes to the default base followed by the endpoint.
\<close>

theorem login_request_witness:
  "login_constraints has_at_sign [(''email'', JStr ''a@b.co''), (''password'', JStr ''secret1'')]
   \<and> filter is_fetch (handleSubmit has_at_sign (example_platform (Inl (ErrorObj ''Failed to fetch'')))
        (JObj [(''email'', JStr ''a@b.co''), (''password'', JStr ''secret1'')]))
     = [Fetch ''http://localhost:8000/api/api/auth/login''
          \<lparr>req_method = POST, req_headers = [(''Content-Type'', PropString ''application/json'')],
           req_body = Some (stringify
             (JObj [(''email'', JStr ''a@b.co''), (''password'', JStr ''secret1'')])),
           req_cache = None, req_credentials = None\<rparr>]"
proof -
  let ?kvs = "[(''email'', JStr ''a@b.co''), (''password'', JStr ''secret1'')]"
  let ?p = "example_platform (Inl (ErrorObj ''Failed to fetch''))"
  have h1: "login_constraints has_at_sign ?kvs"
    by (simp add: login_constraints_def has_at_sign_def)
  have h2: "map_of ?kvs ''email'' = Some (JStr ''a@b.co'')"
    by simp
  have h3: "map_of ?kvs ''password'' = Some (JStr ''secret1'')"
    by simp
  have h4: "JSON_stringify ?p (JObj ?kvs) = Inr (stringify (JObj ?kvs))"
    by (simp add: example_platform_def)
  have url: "API_BASE_URL ?p @ ''/api/auth/login'' = ''http://localhost:8000/api/api/auth/login''"
    by (simp add: API_BASE_URL_def example_platform_def)
  show ?thesis
    using h1 login_request [OF h1 h2 h3 h4] unfolding url by simp
qed

text \<open>
  Claim C7, no retry: a call of \<^verbatim>\<open>apiRequest\<close> issues at most one \<^verbatim>\<open>fetch\<close>, and so does
  a run of \<^verbatim>\<open>onSubmit\<close>. When the \<^verbatim>\<open>try\<close> block of \<^verbatim>\<open>apiRequest\<close> throws, all that
  happens is that the result of the \<^verbatim>\<open>catch\<close> block is returned. When the login response
  has no truthy \<^verbatim>\<open>data\<close>, the form logs the error, stores a message and stops the
  loading state, and does nothing else. The message is the text of the response's
  \<^verbatim>\<open>error\<close>, or of \<^verbatim>\<open>Login failed\<close> where that is falsy; where the \<^verbatim>\<open>error\<close> converts to no
  text, it is the message of the \<^verbatim>\<open>TypeError\<close> that the conversion throws.
\<close>

theorem no_retry:
  "length (fst (apiRequest p endpoint options)) \<le> 1
   \<and> length (filter is_fetch (onSubmit p v)) \<le> 1
   \<and> (snd (apiRequest_try p endpoint options) = Inl e
        \<longrightarrow> snd (apiRequest p endpoint options) = Inr (caught e))
   \<and> (snd (api_post p ''/api/auth/login'' (Some v) None) = Inr r \<and> \<not> truthy (data r)
        \<longrightarrow> onSubmit p v =
            [SetIsLoading True, SetError None]
            @ fst (api_post p ''/api/auth/login'' (Some v) None)
            @ [ConsoleError [LogValue (error r)],
               SetError (Some
                 (case ToString (to_primitive_message p) (or_else (error r) ''Login failed'') of
                    Inl thrown_by_text \<Rightarrow> to_primitive_message p
                  | Inr m \<Rightarrow> m)),
               SetIsLoading False])"
proof -
  have one: "length (fst (apiRequest p endpoint options)) \<le> 1"
    using apiRequest_try_calls [of p endpoint options] by (auto simp: apiRequest_calls)
  obtain rest where shape: "onSubmit p v =
       [SetIsLoading True, SetError None] @ fst (api_post p ''/api/auth/login'' (Some v) None)
         @ rest @ [SetIsLoading False]"
    and rest: "filter is_fetch rest = []"
    using onSubmit_shape by blast
  have two: "length (filter is_fetch (onSubmit p v)) \<le> 1"
    using api_post_calls [of p "''/api/auth/login''" "Some v" None]
    by (auto simp: shape rest is_fetch_def)
  have three: "snd (apiRequest p endpoint options) = Inr (caught e)"
    if "snd (apiRequest_try p endpoint options) = Inl e"
    using that by (auto simp: apiRequest_def split: prod.splits)
  have four: "onSubmit p v =
            [SetIsLoading True, SetError None]
            @ fst (api_post p ''/api/auth/login'' (Some v) None)
            @ [ConsoleError [LogValue (error r)],
               SetError (Some
                 (case ToString (to_primitive_message p) (or_else (error r) ''Login failed'') of
                    Inl thrown_by_text \<Rightarrow> to_primitive_message p
                  | Inr m \<Rightarrow> m)),
               SetIsLoading False]"
    if "snd (api_post p ''/api/auth/login'' (Some v) None) = Inr r" "\<not> truthy (data r)"
    using that
    by (cases "api_post p ''/api/auth/login'' (Some v) None")
       (auto simp: onSubmit_def login_attempt_def new_Error_def
         dest: ToString_throws split: sum.splits)
  from one two three four show ?thesis by blast
qed

text \<open>
  The network is down: one request, the message of the exception shown, loading
  stopped.
\<close>

theorem no_retry_witness:
  "snd (apiRequest_try (example_platform (Inl (ErrorObj ''Failed to fetch''))) ''/api/auth/login''
        (no_options\<lparr>httpMethod := Some POST, body := Some example_login\<rparr>))
     = Inl (ErrorObj ''Failed to fetch'')
   \<and> snd (apiRequest (example_platform (Inl (ErrorObj ''Failed to fetch''))) ''/api/auth/login''
        (no_options\<lparr>httpMethod := Some POST, body := Some example_login\<rparr>))
     = Inr \<lparr>data = None, error = Some (JStr ''Failed to fetch''), statusCode = 500\<rparr>
   \<and> onSubmit (example_platform (Inl (ErrorObj ''Failed to fetch''))) example_login
     = [SetIsLoading True, SetError None, example_login_request,
        ConsoleError [LogValue (Some (JStr ''Failed to fetch''))],
        SetError (Some ''Failed to fetch''), SetIsLoading False]"
proof -
  let ?p = "example_platform (Inl (ErrorObj ''Failed to fetch''))"
  let ?o = "no_options\<lparr>httpMethod := Some POST, body := Some example_login\<rparr>"
  let ?r = "\<lparr>data = None, error = Some (JStr ''Failed to fetch''), statusCode = 500\<rparr>"
  have h1: "snd (apiRequest_try ?p ''/api/auth/login'' ?o) = Inl (ErrorObj ''Failed to fetch'')"
    by (simp add: apiRequest_try_def requestOptions_def no_options_def example_platform_def)
  have h2: "snd (api_post ?p ''/api/auth/login'' (Some example_login) None) = Inr ?r"
    using h1
    by (auto simp: api_post_def spread_def apiRequest_def caught_def split: prod.splits)
  have h3: "\<not> truthy (data ?r)"
    by (simp add: truthy_def)
  show ?thesis
    using h1 h2 h3 no_retry [of ?p "''/api/auth/login''" ?o example_login
        "ErrorObj ''Failed to fetch''" ?r]
      example_login_trace [of "Inl (ErrorObj ''Failed to fetch'')"]
    by (simp add: caught_def or_else_def)
qed

text \<open>
  The server answers 400 with an object as its \<^verbatim>\<open>message\<close> that has a \<^verbatim>\<open>toString\<close>
  property: the \<^verbatim>\<open>Error\<close> constructor throws on it, and the form stores the message of
  that \<^verbatim>\<open>TypeError\<close>.
\<close>

lemma onSubmit_unconvertible_error:
  "onSubmit
     (example_platform (Inr (json_response 400 False
        (Inr (JObj [(''message'', JObj [(''toString'', JNum ''1'')])])))))
     example_login
   = [SetIsLoading True, SetError None, example_login_request,
      ConsoleError [LogValue (Some (JObj [(''toString'', JNum ''1'')]))],
      SetError (Some ''Cannot convert object to primitive value''), SetIsLoading False]"
proof -
  let ?outcome = "Inr (json_response 400 False
        (Inr (JObj [(''message'', JObj [(''toString'', JNum ''1'')])])))"
  have r: "snd (api_post (example_platform ?outcome) ''/api/auth/login'' (Some example_login) None)
      = Inr \<lparr>data = None, error = Some (JObj [(''toString'', JNum ''1'')]), statusCode = 400\<rparr>"
    by (simp add: api_post_def spread_def apiRequest_def apiRequest_try_def requestOptions_def
        no_options_def example_platform_def json_response_def from_response_def
        get_message_def or_else_def)
  show ?thesis
    using r example_login_trace [of ?outcome]
    by (cases "api_post (example_platform ?outcome) ''/api/auth/login'' (Some example_login) None")
       (simp add: onSubmit_def login_attempt_def new_Error_def truthy_def or_else_def
         example_platform_def)
qed

text \<open>
  When the response has no truthy \<^verbatim>\<open>data\<close> and its \<^verbatim>\<open>error\<close> is a string or absent, the
  form stores a message that is not empty, and the error box shows it.
\<close>

lemma string_error_is_shown:
  assumes "snd (api_post p ''/api/auth/login'' (Some v) None) = Inr r"
    and "\<not> truthy (data r)" and "error r = None \<or> (\<exists>m. error r = Some (JStr m))"
  shows "\<exists>m. m \<noteq> [] \<and> form_error (after (onSubmit p v) st) = Some m
     \<and> rendered_error (after (onSubmit p v) st) = Some m"
  using assms
  by (cases "api_post p ''/api/auth/login'' (Some v) None")
     (auto simp: onSubmit_def login_attempt_def new_Error_def after_def rendered_error_def
       or_else_def split: if_splits)

text \<open>
  Claim C8, the error message renders on failure: a login response without data makes
  the form store a message that is not empty, and the message is shown. It holds
  while the \<^verbatim>\<open>error\<close> of the response is a string, by the lemma above, and the form's
  fallbacks are there for it; it breaks on the \<^verbatim>\<open>error\<close> values that are no strings,
  which \<^verbatim>\<open>apiRequest\<close> lets through. Here the server answers 400 with an empty list as
  its \<^verbatim>\<open>message\<close>: the list is truthy, so no fallback applies, and the \<^verbatim>\<open>Error\<close> built
  from it has the empty message. The form's error is the empty string, and no error
  box is rendered.
\<close>

theorem onSubmit_empty_error_message:
  "onSubmit
     (example_platform (Inr (json_response 400 False (Inr (JObj [(''message'', JArr [])])))))
     example_login
   = [SetIsLoading True, SetError None, example_login_request,
      ConsoleError [LogValue (Some (JArr []))], SetError (Some []), SetIsLoading False]
   \<and> form_error (after (onSubmit
         (example_platform (Inr (json_response 400 False (Inr (JObj [(''message'', JArr [])])))))
         example_login) fresh_form) = Some []
   \<and> rendered_error (after (onSubmit
         (example_platform (Inr (json_response 400 False (Inr (JObj [(''message'', JArr [])])))))
         example_login) fresh_form) = None"
proof -
  let ?p = "example_platform (Inr (json_response 400 False (Inr (JObj [(''message'', JArr [])]))))"
  have r: "snd (api_post ?p ''/api/auth/login'' (Some example_login) None)
      = Inr \<lparr>data = None, error = Some (JArr []), statusCode = 400\<rparr>"
    by (simp add: api_post_def spread_def apiRequest_def apiRequest_try_def requestOptions_def
        no_options_def example_platform_def json_response_def from_response_def
        get_message_def or_else_def)
  have trace: "onSubmit ?p example_login
     = [SetIsLoading True, SetError None, example_login_request,
        ConsoleError [LogValue (Some (JArr []))], SetError (Some []), SetIsLoading False]"
    using r example_login_trace [of "Inr (json_response 400 False (Inr (JObj [(''message'', JArr [])])))"]
    by (cases "api_post ?p ''/api/auth/login'' (Some example_login) None")
       (simp add: onSubmit_def login_attempt_def new_Error_def truthy_def or_else_def)
  show ?thesis
    by (simp add: trace after_def rendered_error_def fresh_form_def example_login_request_def)
qed



end
